theory Spec2Isabelle
  imports Main "HOL-Library.Word" "HOL-Library.Signed_Division"
begin

section \<open>The bounded random value driver (driver/simpledriver.go)\<close>

text \<open>
  A shallow embedding of \<^verbatim>\<open>SimpleDriver\<close>: the registry of random devices, the read
  callback that samples a value per request, the write callback that updates the six
  bounds, and the two lifecycle callbacks.

  Go's fixed-width integers are words: \<^verbatim>\<open>int8(v)\<close> on an \<^verbatim>\<open>int64\<close> is truncation
  (\<open>ucast\<close> to the narrower word), \<^verbatim>\<open>int64(v)\<close> on an \<^verbatim>\<open>int8\<close> is sign extension
  (\<open>scast\<close>), and \<^verbatim>\<open><\<close> on signed integers is \<open><s\<close>.
\<close>

type_synonym int8 = "8 word"
type_synonym int16 = "16 word"
type_synonym int32 = "32 word"
type_synonym int64 = "64 word"

subsection \<open>Types of the device SDK, as far as the driver looks at them\<close>

text \<open>
  \<^verbatim>\<open>models.ResourceOperation\<close>: the driver reads its \<^verbatim>\<open>Object\<close> field only.
\<close>

record ResourceOperation =
  Object :: string

text \<open>
  \<^verbatim>\<open>dsModels.CommandRequest\<close>: the resource operation \<^verbatim>\<open>RO\<close> and the value type
  found at \<^verbatim>\<open>DeviceResource.Properties.Value.Type\<close>.
\<close>

record CommandRequest =
  reqRO :: ResourceOperation
  reqType :: string

text \<open>
  \<^verbatim>\<open>dsModels.CommandValue\<close> as a write parameter. The SDK is not part of this
  repository, so a parameter is what the driver observes of it: its \<^verbatim>\<open>RO\<close>, the
  result of each of the accessors \<^verbatim>\<open>Int8Value()\<close>, \<^verbatim>\<open>Int16Value()\<close>,
  \<^verbatim>\<open>Int32Value()\<close> (the accessor's error text, or a value of the accessor's Go result
  type), and its \<^verbatim>\<open>String()\<close> rendering.
\<close>

record CommandValue =
  RO :: ResourceOperation
  Int8Value :: "string + int8"
  Int16Value :: "string + int16"
  Int32Value :: "string + int32"
  String :: string

text \<open>
  \<^verbatim>\<open>dsModels.CommandValue\<close> as a read result: the SDK constructor that built it, with
  its arguments (resource operation, origin timestamp, value).
\<close>

datatype NewCommandValue =
  NewInt8Value ResourceOperation int64 int8
| NewInt16Value ResourceOperation int64 int16
| NewInt32Value ResourceOperation int64 int32

type_synonym ProtocolProperties = "string \<rightharpoonup> string"

subsection \<open>Errors\<close>

text \<open>
  The driver's errors are \<^verbatim>\<open>fmt.Errorf\<close> values; one constructor per message format,
  carrying the arguments of the format.
  \<^item> \<open>AccessorError err\<close>: \<^verbatim>\<open>"RandomDriver.HandleWriteCommands: %v"\<close>, wrapping the
    error of an SDK accessor;
  \<^item> \<open>OutOfRange b ty v lo hi\<close>: \<^verbatim>\<open>"... minimum value %d of %T must be int between %d ~ %d"\<close>
    (or \<^verbatim>\<open>maximum\<close>);
  \<^item> \<open>UnknownField str\<close>: \<^verbatim>\<open>"... there is no matched device resource for %s"\<close>;
  \<^item> \<open>UnsupportedType t\<close>: the error of \<^verbatim>\<open>randomDevice.value\<close> for an unrecognised
    value type.
\<close>

datatype bound = Minimum | Maximum

datatype error =
  AccessorError string
| OutOfRange bound string int int int
| UnknownField string
| UnsupportedType string

subsection \<open>The random device\<close>

text \<open>
  Modelled from the spec: the absolute width limits \<^verbatim>\<open>defMinInt8\<close> ... \<^verbatim>\<open>defMaxInt32\<close>
  are constants of the package that the driver file uses and does not declare. The spec
  gives them as the full signed range of each width: [-128,127], [-32768,32767] and the
  full 32-bit range. The driver compares them with values of type \<^verbatim>\<open>int8\<close>,
  \<^verbatim>\<open>int16\<close> and \<^verbatim>\<open>int32\<close>, so each has the width of its comparison.
\<close>

definition defMinInt8 :: int8 where "defMinInt8 = - 128"
definition defMaxInt8 :: int8 where "defMaxInt8 = 127"
definition defMinInt16 :: int16 where "defMinInt16 = - 32768"
definition defMaxInt16 :: int16 where "defMaxInt16 = 32767"
definition defMinInt32 :: int32 where "defMinInt32 = - 2147483648"
definition defMaxInt32 :: int32 where "defMaxInt32 = 2147483647"

text \<open>
  Modelled from the spec: the struct \<^verbatim>\<open>randomDevice\<close> is declared outside the driver
  file. The spec's DeviceRandomState has a current minimum and a current maximum for each
  of the three widths; the driver assigns \<^verbatim>\<open>int64(v)\<close> to each of the six fields, so
  they are \<^verbatim>\<open>int64\<close>.
\<close>

record randomDevice =
  minInt8 :: int64
  maxInt8 :: int64
  minInt16 :: int64
  maxInt16 :: int64
  minInt32 :: int64
  maxInt32 :: int64

text \<open>
  Modelled from the spec: \<^verbatim>\<open>newRandomDevice\<close> is defined outside the driver file. The
  spec: a lazily created state has default bounds equal to the full legal range for each
  width.
\<close>

definition newRandomDevice :: randomDevice where
  "newRandomDevice =
     \<lparr>minInt8 = scast defMinInt8, maxInt8 = scast defMaxInt8,
      minInt16 = scast defMinInt16, maxInt16 = scast defMaxInt16,
      minInt32 = scast defMinInt32, maxInt32 = scast defMaxInt32\<rparr>"

text \<open>
  Modelled from the spec: the sampling helper behind \<^verbatim>\<open>randomDevice.value\<close> is defined
  outside the driver file. The spec: "generate a uniformly distributed pseudo-random
  integer within the device's current [min, max] range". The raw output \<open>r\<close> of the
  pseudo-random source is an argument; it is folded into the \<open>max - min + 1\<close> values
  of the range. The spec says nothing about a range with \<open>max < min\<close>.
\<close>

definition randomInt :: "int64 \<Rightarrow> int64 \<Rightarrow> nat \<Rightarrow> int64" where
  "randomInt mn mx r = word_of_int (sint mn + int r mod (sint mx - sint mn + 1))"

text \<open>
  Modelled from the spec: the method \<^verbatim>\<open>randomDevice.value\<close> is defined outside the
  driver file. The spec: Read generates a value within the current range of the requested
  width, and "fails with UnsupportedType if requestedWidth is not one of the three
  supported widths". The driver's call site fixes the signature: a type name in, an
  \<^verbatim>\<open>int64\<close> and an error out.
\<close>

definition rd_value :: "randomDevice \<Rightarrow> string \<Rightarrow> nat \<Rightarrow> error + int64" where
  "rd_value d valueType r =
     (if valueType = ''Int8'' then Inr (randomInt (minInt8 d) (maxInt8 d) r)
      else if valueType = ''Int16'' then Inr (randomInt (minInt16 d) (maxInt16 d) r)
      else if valueType = ''Int32'' then Inr (randomInt (minInt32 d) (maxInt32 d) r)
      else Inl (UnsupportedType valueType))"

subsection \<open>The driver\<close>

text \<open>
  \<^verbatim>\<open>SimpleDriver\<close> after \<^verbatim>\<open>Initialize\<close>, which the SDK's bootstrap calls before any
  other callback: \<open>lc\<close> is the logging client, modelled by the debug lines written to it
  so far; \<open>randomDevices\<close> is the registry. The registry holds one pointer per device
  name, each obtained from its own call of \<^verbatim>\<open>newRandomDevice\<close> and never copied to
  another key, so no two entries alias and the registry is a map to records. The channel
  \<^verbatim>\<open>asyncCh\<close> is stored by \<^verbatim>\<open>Initialize\<close> and never used; it is left out.
\<close>

record SimpleDriver =
  lc :: "string list"
  randomDevices :: "string \<rightharpoonup> randomDevice"

definition DisconnectDevice ::
  "SimpleDriver \<Rightarrow> string \<Rightarrow> (string \<rightharpoonup> ProtocolProperties) \<Rightarrow> SimpleDriver \<times> error option" where
  "DisconnectDevice s deviceName protocols = (s, None)"

definition Initialize :: "SimpleDriver \<Rightarrow> string list \<Rightarrow> SimpleDriver \<times> error option" where
  "Initialize s lc' = (s\<lparr>lc := lc', randomDevices := Map.empty\<rparr>, None)"

text \<open>
  Lines 45-49 and 82-86, the same text in both callbacks: look the device up and, when
  it is absent, create it and store it in the registry.
\<close>

definition lookupDevice :: "SimpleDriver \<Rightarrow> string \<Rightarrow> randomDevice \<times> SimpleDriver" where
  "lookupDevice s deviceName =
     (case randomDevices s deviceName of
        Some rd \<Rightarrow> (rd, s)
      | None \<Rightarrow>
          (newRandomDevice,
           s\<lparr>randomDevices := (randomDevices s)(deviceName \<mapsto> newRandomDevice)\<rparr>))"

text \<open>
  The loop of \<^verbatim>\<open>HandleReadCommands\<close> from request \<open>i\<close> on. \<open>rnd i\<close> is the raw
  output of the pseudo-random source that the sample of request \<open>i\<close> consumes. An error
  returns \<^verbatim>\<open>nil, err\<close> at once. A request whose type matches no case of the
  \<^verbatim>\<open>switch\<close> leaves \<^verbatim>\<open>cv\<close> nil: \<open>None\<close> in the result.
\<close>

fun readLoop ::
  "randomDevice \<Rightarrow> int64 \<Rightarrow> (nat \<Rightarrow> nat) \<Rightarrow> nat \<Rightarrow> CommandRequest list
     \<Rightarrow> error + NewCommandValue option list" where
  "readLoop rd now rnd i [] = Inr []"
| "readLoop rd now rnd i (req # reqs) =
     (let t = reqType req in
      case rd_value rd t (rnd i) of
        Inl err \<Rightarrow> Inl err
      | Inr v \<Rightarrow>
          (let cv =
             (if t = ''Int8'' then Some (NewInt8Value (reqRO req) now (ucast v))
              else if t = ''Int16'' then Some (NewInt16Value (reqRO req) now (ucast v))
              else if t = ''Int32'' then Some (NewInt32Value (reqRO req) now (ucast v))
              else None)
           in case readLoop rd now rnd (Suc i) reqs of
                Inl err \<Rightarrow> Inl err
              | Inr res \<Rightarrow> Inr (cv # res)))"

text \<open>
  \<^verbatim>\<open>HandleReadCommands\<close>. \<open>unixNano\<close> is the reading of \<^verbatim>\<open>time.Now().UnixNano()\<close>;
  Go's \<^verbatim>\<open>/\<close> truncates towards zero and \<^verbatim>\<open>int64(time.Millisecond)\<close> is 1000000.
\<close>

definition HandleReadCommands ::
  "SimpleDriver \<Rightarrow> string \<Rightarrow> (string \<rightharpoonup> ProtocolProperties) \<Rightarrow> CommandRequest list
     \<Rightarrow> int64 \<Rightarrow> (nat \<Rightarrow> nat) \<Rightarrow> SimpleDriver \<times> (error + NewCommandValue option list)" where
  "HandleReadCommands s deviceName protocols reqs unixNano rnd =
     (let (rd, s') = lookupDevice s deviceName;
          now = word_of_int (sint unixNano sdiv 1000000)
      in (s', readLoop rd now rnd 0 reqs))"

text \<open>
  One iteration of the loop of \<^verbatim>\<open>HandleWriteCommands\<close>: the \<^verbatim>\<open>switch\<close> on
  \<^verbatim>\<open>param.RO.Object\<close>. It returns the device after the iteration and the error that
  the iteration returns with, if any.
\<close>

definition writeParam :: "randomDevice \<Rightarrow> CommandValue \<Rightarrow> randomDevice \<times> error option" where
  "writeParam rd param =
     (if Object (RO param) = ''Min_Int8'' then
        (case Int8Value param of
           Inl err \<Rightarrow> (rd, Some (AccessorError err))
         | Inr v \<Rightarrow>
             if v <s defMinInt8
             then (rd, Some (OutOfRange Minimum ''int8'' (sint v) (sint defMinInt8) (sint defMaxInt8)))
             else (rd\<lparr>minInt8 := scast v\<rparr>, None))
      else if Object (RO param) = ''Max_Int8'' then
        (case Int8Value param of
           Inl err \<Rightarrow> (rd, Some (AccessorError err))
         | Inr v \<Rightarrow>
             if defMaxInt8 <s v
             then (rd, Some (OutOfRange Maximum ''int8'' (sint v) (sint defMinInt8) (sint defMaxInt8)))
             else (rd\<lparr>maxInt8 := scast v\<rparr>, None))
      else if Object (RO param) = ''Min_Int16'' then
        (case Int16Value param of
           Inl err \<Rightarrow> (rd, Some (AccessorError err))
         | Inr v \<Rightarrow>
             if v <s defMinInt16
             then (rd, Some (OutOfRange Minimum ''int16'' (sint v) (sint defMinInt16) (sint defMaxInt16)))
             else (rd\<lparr>minInt16 := scast v\<rparr>, None))
      else if Object (RO param) = ''Max_Int16'' then
        (case Int16Value param of
           Inl err \<Rightarrow> (rd, Some (AccessorError err))
         | Inr v \<Rightarrow>
             if defMaxInt16 <s v
             then (rd, Some (OutOfRange Maximum ''int16'' (sint v) (sint defMinInt16) (sint defMaxInt16)))
             else (rd\<lparr>maxInt16 := scast v\<rparr>, None))
      else if Object (RO param) = ''Min_Int32'' then
        (case Int32Value param of
           Inl err \<Rightarrow> (rd, Some (AccessorError err))
         | Inr v \<Rightarrow>
             if v <s defMinInt32
             then (rd, Some (OutOfRange Minimum ''int32'' (sint v) (sint defMinInt32) (sint defMaxInt32)))
             else (rd\<lparr>minInt32 := scast v\<rparr>, None))
      else if Object (RO param) = ''Max_Int32'' then
        (case Int32Value param of
           Inl err \<Rightarrow> (rd, Some (AccessorError err))
         | Inr v \<Rightarrow>
             if defMaxInt32 <s v
             then (rd, Some (OutOfRange Maximum ''int32'' (sint v) (sint defMinInt32) (sint defMaxInt32)))
             else (rd\<lparr>maxInt32 := scast v\<rparr>, None))
      else (rd, Some (UnknownField (String param))))"

text \<open>The loop over \<^verbatim>\<open>params\<close>: the first error ends it.\<close>

fun writeLoop :: "randomDevice \<Rightarrow> CommandValue list \<Rightarrow> randomDevice \<times> error option" where
  "writeLoop rd [] = (rd, None)"
| "writeLoop rd (param # params) =
     (case writeParam rd param of
        (rd', Some err) \<Rightarrow> (rd', Some err)
      | (rd', None) \<Rightarrow> writeLoop rd' params)"

text \<open>
  \<^verbatim>\<open>HandleWriteCommands\<close>. The loop assigns through the pointer \<^verbatim>\<open>rd\<close> that the
  registry holds, so the registry entry is the device as the loop left it, whether the
  call returns \<^verbatim>\<open>nil\<close> or an error. \<^verbatim>\<open>reqs\<close> is not used.
\<close>

definition HandleWriteCommands ::
  "SimpleDriver \<Rightarrow> string \<Rightarrow> (string \<rightharpoonup> ProtocolProperties) \<Rightarrow> CommandRequest list
     \<Rightarrow> CommandValue list \<Rightarrow> SimpleDriver \<times> error option" where
  "HandleWriteCommands s deviceName protocols reqs params =
     (let (rd, s') = lookupDevice s deviceName;
          (rd', err) = writeLoop rd params
      in (s'\<lparr>randomDevices := (randomDevices s')(deviceName \<mapsto> rd')\<rparr>, err))"

text \<open>
  \<^verbatim>\<open>Stop\<close> writes one debug line (\<^verbatim>\<open>%v\<close> of a bool is \<^verbatim>\<open>true\<close> or \<^verbatim>\<open>false\<close>)
  and returns \<^verbatim>\<open>nil\<close>.
\<close>

definition Stop :: "SimpleDriver \<Rightarrow> bool \<Rightarrow> SimpleDriver \<times> error option" where
  "Stop s force =
     (s\<lparr>lc := lc s @ [''SimpleDriver.Stop called: force='' @ (if force then ''true'' else ''false'')]\<rparr>,
      None)"

subsection \<open>Histories of the driver\<close>

text \<open>
  The callbacks that the SDK may invoke on an initialised driver, with their arguments,
  and the driver state that a sequence of such calls leaves behind, whatever each call
  returned.
\<close>

datatype call =
  ReadCall string "string \<rightharpoonup> ProtocolProperties" "CommandRequest list" int64 "nat \<Rightarrow> nat"
| WriteCall string "string \<rightharpoonup> ProtocolProperties" "CommandRequest list" "CommandValue list"
| DisconnectCall string "string \<rightharpoonup> ProtocolProperties"
| StopCall bool

fun step :: "SimpleDriver \<Rightarrow> call \<Rightarrow> SimpleDriver" where
  "step s (ReadCall deviceName protocols reqs unixNano rnd) =
     fst (HandleReadCommands s deviceName protocols reqs unixNano rnd)"
| "step s (WriteCall deviceName protocols reqs params) =
     fst (HandleWriteCommands s deviceName protocols reqs params)"
| "step s (DisconnectCall deviceName protocols) = fst (DisconnectDevice s deviceName protocols)"
| "step s (StopCall force) = fst (Stop s force)"

definition run :: "SimpleDriver \<Rightarrow> string list \<Rightarrow> call list \<Rightarrow> SimpleDriver" where
  "run s lc' calls = foldl step (fst (Initialize s lc')) calls"

subsection \<open>Vocabulary of the properties\<close>

text \<open>The three value types a read may request, and the six fields a write may name.\<close>

definition supported :: "string \<Rightarrow> bool" where
  "supported t = (t = ''Int8'' \<or> t = ''Int16'' \<or> t = ''Int32'')"


text \<open>The current bounds of a device for a supported value type, as signed integers.\<close>

definition currentMin :: "randomDevice \<Rightarrow> string \<Rightarrow> int" where
  "currentMin rd t =
     (if t = ''Int8'' then sint (minInt8 rd)
      else if t = ''Int16'' then sint (minInt16 rd) else sint (minInt32 rd))"

definition currentMax :: "randomDevice \<Rightarrow> string \<Rightarrow> int" where
  "currentMax rd t =
     (if t = ''Int8'' then sint (maxInt8 rd)
      else if t = ''Int16'' then sint (maxInt16 rd) else sint (maxInt32 rd))"

text \<open>The absolute limits of a supported value type.\<close>

definition floorOf :: "string \<Rightarrow> int" where
  "floorOf t =
     (if t = ''Int8'' then sint defMinInt8
      else if t = ''Int16'' then sint defMinInt16 else sint defMinInt32)"

definition ceilingOf :: "string \<Rightarrow> int" where
  "ceilingOf t =
     (if t = ''Int8'' then sint defMaxInt8
      else if t = ''Int16'' then sint defMaxInt16 else sint defMaxInt32)"

text \<open>The number that a read result carries, and the test that it lies in a range.\<close>

fun valueOf :: "NewCommandValue \<Rightarrow> int" where
  "valueOf (NewInt8Value ro origin v) = sint v"
| "valueOf (NewInt16Value ro origin v) = sint v"
| "valueOf (NewInt32Value ro origin v) = sint v"

fun within :: "int \<Rightarrow> int \<Rightarrow> NewCommandValue option \<Rightarrow> bool" where
  "within lo hi None = False"
| "within lo hi (Some cv) = (lo \<le> valueOf cv \<and> valueOf cv \<le> hi)"

text \<open>
  A read succeeded with one result per request, each within the device's current bounds
  for the requested type.
\<close>

fun readWithin ::
  "randomDevice \<Rightarrow> CommandRequest list \<Rightarrow> error + NewCommandValue option list \<Rightarrow> bool" where
  "readWithin rd reqs (Inl err) = False"
| "readWithin rd reqs (Inr res) =
     list_all2 (\<lambda>req cv. within (currentMin rd (reqType req)) (currentMax rd (reqType req)) cv)
       reqs res"

text \<open>Every bound of a device lies within the absolute limits of its width.\<close>

definition inLimits :: "randomDevice \<Rightarrow> bool" where
  "inLimits rd =
     (floorOf ''Int8'' \<le> sint (minInt8 rd) \<and> sint (minInt8 rd) \<le> ceilingOf ''Int8'' \<and>
      floorOf ''Int8'' \<le> sint (maxInt8 rd) \<and> sint (maxInt8 rd) \<le> ceilingOf ''Int8'' \<and>
      floorOf ''Int16'' \<le> sint (minInt16 rd) \<and> sint (minInt16 rd) \<le> ceilingOf ''Int16'' \<and>
      floorOf ''Int16'' \<le> sint (maxInt16 rd) \<and> sint (maxInt16 rd) \<le> ceilingOf ''Int16'' \<and>
      floorOf ''Int32'' \<le> sint (minInt32 rd) \<and> sint (minInt32 rd) \<le> ceilingOf ''Int32'' \<and>
      floorOf ''Int32'' \<le> sint (maxInt32 rd) \<and> sint (maxInt32 rd) \<le> ceilingOf ''Int32'')"

subsection \<open>Concrete inputs\<close>

text \<open>
  The inputs at which the properties below are evaluated. \<open>zeroDriver\<close> is the Go zero
  value that \<^verbatim>\<open>main\<close> hands to the bootstrap, and \<open>freshDriver\<close> is the driver
  after \<^verbatim>\<open>Initialize\<close>.
\<close>

definition zeroDriver :: SimpleDriver where
  "zeroDriver = \<lparr>lc = [], randomDevices = Map.empty\<rparr>"

definition freshDriver :: SimpleDriver where
  "freshDriver = fst (Initialize zeroDriver [])"

text \<open>
  Write parameters that hold a value of one width: the accessor of that width returns
  the value, the accessors of the other widths return an error.
\<close>

definition int8Param :: "string \<Rightarrow> int8 \<Rightarrow> CommandValue" where
  "int8Param obj v =
     \<lparr>RO = \<lparr>Object = obj\<rparr>, Int8Value = Inr v,
      Int16Value = Inl ''the data type is not int16'',
      Int32Value = Inl ''the data type is not int32'', String = obj\<rparr>"

definition int16Param :: "string \<Rightarrow> int16 \<Rightarrow> CommandValue" where
  "int16Param obj v =
     \<lparr>RO = \<lparr>Object = obj\<rparr>, Int8Value = Inl ''the data type is not int8'',
      Int16Value = Inr v,
      Int32Value = Inl ''the data type is not int32'', String = obj\<rparr>"

definition int32Param :: "string \<Rightarrow> int32 \<Rightarrow> CommandValue" where
  "int32Param obj v =
     \<lparr>RO = \<lparr>Object = obj\<rparr>, Int8Value = Inl ''the data type is not int8'',
      Int16Value = Inl ''the data type is not int16'',
      Int32Value = Inr v, String = obj\<rparr>"

text \<open>A read request for a resource of the given value type.\<close>

definition readReq :: "string \<Rightarrow> string \<Rightarrow> CommandRequest" where
  "readReq obj t = \<lparr>reqRO = \<lparr>Object = obj\<rparr>, reqType = t\<rparr>"

section \<open>Properties\<close>

subsection \<open>Words\<close>

text \<open>The limits in numbers, and the two conversions of the driver on values in range.\<close>

lemma floor_ceiling_values:
  "floorOf ''Int8'' = - 128" "ceilingOf ''Int8'' = 127"
  "floorOf ''Int16'' = - 32768" "ceilingOf ''Int16'' = 32767"
  "floorOf ''Int32'' = - 2147483648" "ceilingOf ''Int32'' = 2147483647"
  by (simp_all add: floorOf_def ceilingOf_def defMinInt8_def defMaxInt8_def defMinInt16_def
      defMaxInt16_def defMinInt32_def defMaxInt32_def)

lemma sint_scast_up:
  "LENGTH('a::len) \<le> 64 \<Longrightarrow> sint (scast (v :: 'a word) :: int64) = sint v"
  by (rule sint_up_scast) (simp add: is_up)

lemma sint_ucast_down:
  assumes "LENGTH('a::len) \<le> 64"
    and "- (2 ^ (LENGTH('a) - 1)) \<le> sint (w :: int64)" and "sint w < 2 ^ (LENGTH('a) - 1)"
  shows "sint (ucast w :: 'a word) = sint w"
proof -
  have "(ucast w :: 'a word) = scast w"
    using assms(1) by (simp add: down_cast_same is_down)
  then have "sint (ucast w :: 'a word) = signed_take_bit (LENGTH('a) - 1) (sint w)"
    by (simp add: signed_scast_eq)
  also have "\<dots> = sint w"
    using assms(2,3) by (simp add: signed_take_bit_int_eq_self)
  finally show ?thesis .
qed

lemma sint_word_of_int_64:
  "- (2 ^ 63) \<le> k \<Longrightarrow> k < 2 ^ 63 \<Longrightarrow> sint (word_of_int k :: int64) = k"
  by (simp add: sint_sbintrunc' signed_take_bit_int_eq_self)

lemma randomInt_range:
  assumes "sint mn \<le> sint mx"
  shows "sint mn \<le> sint (randomInt mn mx r) \<and> sint (randomInt mn mx r) \<le> sint mx"
proof -
  let ?k = "sint mn + int r mod (sint mx - sint mn + 1)"
  have pos: "0 < sint mx - sint mn + 1" using assms by simp
  have lo: "0 \<le> int r mod (sint mx - sint mn + 1)" using pos by simp
  have hi: "int r mod (sint mx - sint mn + 1) < sint mx - sint mn + 1"
    using pos by (rule pos_mod_bound)
  have k: "sint mn \<le> ?k \<and> ?k \<le> sint mx" using lo hi by simp
  have "- (2 ^ 63) \<le> ?k" using k sint_ge [of mn] by simp
  moreover have "?k < 2 ^ 63" using k sint_lt [of mx] by simp
  ultimately have "sint (word_of_int ?k :: int64) = ?k" by (rule sint_word_of_int_64)
  then show ?thesis using k by (simp add: randomInt_def)
qed

text \<open>A sample from a range inside the limits of a width survives the truncation to it.\<close>

lemma sample_truncated:
  assumes len: "LENGTH('a::len) \<le> 64"
    and lo: "- (2 ^ (LENGTH('a) - 1)) \<le> sint mn" and hi: "sint mx < 2 ^ (LENGTH('a) - 1)"
    and le: "sint mn \<le> sint mx"
  shows "sint mn \<le> sint (ucast (randomInt mn mx r) :: 'a word)
       \<and> sint (ucast (randomInt mn mx r) :: 'a word) \<le> sint mx"
proof -
  note r = randomInt_range [OF le, of r]
  have "sint (ucast (randomInt mn mx r) :: 'a word) = sint (randomInt mn mx r)"
    using len lo hi r by (intro sint_ucast_down) simp_all
  then show ?thesis using r by simp
qed

subsection \<open>Reading\<close>

lemma readLoop_step:
  assumes lim: "inLimits rd" and sup: "supported (reqType req)"
    and le: "currentMin rd (reqType req) \<le> currentMax rd (reqType req)"
  shows "\<exists>cv. within (currentMin rd (reqType req)) (currentMax rd (reqType req)) cv \<and>
    readLoop rd now rnd i (req # reqs) =
      (case readLoop rd now rnd (Suc i) reqs of Inl err \<Rightarrow> Inl err | Inr res \<Rightarrow> Inr (cv # res))"
proof -
  consider "reqType req = ''Int8''" | "reqType req = ''Int16''" | "reqType req = ''Int32''"
    using sup by (auto simp: supported_def)
  then show ?thesis
  proof cases
    case 1
    have "sint (minInt8 rd) \<le> sint (ucast (randomInt (minInt8 rd) (maxInt8 rd) (rnd i)) :: int8)
        \<and> sint (ucast (randomInt (minInt8 rd) (maxInt8 rd) (rnd i)) :: int8) \<le> sint (maxInt8 rd)"
      using lim le 1
      by (intro sample_truncated) (simp_all add: inLimits_def floor_ceiling_values currentMin_def currentMax_def)
    then show ?thesis using 1
      by (intro exI [of _ "Some (NewInt8Value (reqRO req) now (ucast (randomInt (minInt8 rd) (maxInt8 rd) (rnd i))))"])
        (simp add: rd_value_def currentMin_def currentMax_def)
  next
    case 2
    have "sint (minInt16 rd) \<le> sint (ucast (randomInt (minInt16 rd) (maxInt16 rd) (rnd i)) :: int16)
        \<and> sint (ucast (randomInt (minInt16 rd) (maxInt16 rd) (rnd i)) :: int16) \<le> sint (maxInt16 rd)"
      using lim le 2
      by (intro sample_truncated) (simp_all add: inLimits_def floor_ceiling_values currentMin_def currentMax_def)
    then show ?thesis using 2
      by (intro exI [of _ "Some (NewInt16Value (reqRO req) now (ucast (randomInt (minInt16 rd) (maxInt16 rd) (rnd i))))"])
        (simp add: rd_value_def currentMin_def currentMax_def)
  next
    case 3
    have "sint (minInt32 rd) \<le> sint (ucast (randomInt (minInt32 rd) (maxInt32 rd) (rnd i)) :: int32)
        \<and> sint (ucast (randomInt (minInt32 rd) (maxInt32 rd) (rnd i)) :: int32) \<le> sint (maxInt32 rd)"
      using lim le 3
      by (intro sample_truncated) (simp_all add: inLimits_def floor_ceiling_values currentMin_def currentMax_def)
    then show ?thesis using 3
      by (intro exI [of _ "Some (NewInt32Value (reqRO req) now (ucast (randomInt (minInt32 rd) (maxInt32 rd) (rnd i))))"])
        (simp add: rd_value_def currentMin_def currentMax_def)
  qed
qed

lemma readLoop_within:
  assumes "inLimits rd"
    and "\<forall>req\<in>set reqs. supported (reqType req)
           \<and> currentMin rd (reqType req) \<le> currentMax rd (reqType req)"
  shows "readWithin rd reqs (readLoop rd now rnd i reqs)"
  using assms(2)
proof (induction reqs arbitrary: i)
  case Nil
  then show ?case by simp
next
  case (Cons req reqs)
  obtain cv where cv: "within (currentMin rd (reqType req)) (currentMax rd (reqType req)) cv"
    and eq: "readLoop rd now rnd i (req # reqs) =
      (case readLoop rd now rnd (Suc i) reqs of Inl err \<Rightarrow> Inl err | Inr res \<Rightarrow> Inr (cv # res))"
    using readLoop_step [OF assms(1), of req now rnd i reqs] Cons.prems by auto
  have ih: "readWithin rd reqs (readLoop rd now rnd (Suc i) reqs)"
    using Cons.IH [of "Suc i"] Cons.prems by simp
  show ?case
  proof (cases "readLoop rd now rnd (Suc i) reqs")
    case (Inl err)
    then show ?thesis using ih by simp
  next
    case (Inr res)
    then show ?thesis using ih cv eq by simp
  qed
qed

subsection \<open>Writing\<close>

text \<open>
  What one update does, in one statement: it is rejected and leaves the device as it was,
  or it is accepted and assigns the value read at the field's width to the named bound.
\<close>

lemma writeParam_char:
  "case writeParam rd p of (rd', e) \<Rightarrow>
     (e \<noteq> None \<and> rd' = rd) \<or>
     (e = None \<and> Object (RO p) = ''Min_Int8'' \<and> (\<exists>v. Int8Value p = Inr v \<and> rd' = rd\<lparr>minInt8 := scast v\<rparr>)) \<or>
     (e = None \<and> Object (RO p) = ''Max_Int8'' \<and> (\<exists>v. Int8Value p = Inr v \<and> rd' = rd\<lparr>maxInt8 := scast v\<rparr>)) \<or>
     (e = None \<and> Object (RO p) = ''Min_Int16'' \<and> (\<exists>v. Int16Value p = Inr v \<and> rd' = rd\<lparr>minInt16 := scast v\<rparr>)) \<or>
     (e = None \<and> Object (RO p) = ''Max_Int16'' \<and> (\<exists>v. Int16Value p = Inr v \<and> rd' = rd\<lparr>maxInt16 := scast v\<rparr>)) \<or>
     (e = None \<and> Object (RO p) = ''Min_Int32'' \<and> (\<exists>v. Int32Value p = Inr v \<and> rd' = rd\<lparr>minInt32 := scast v\<rparr>)) \<or>
     (e = None \<and> Object (RO p) = ''Max_Int32'' \<and> (\<exists>v. Int32Value p = Inr v \<and> rd' = rd\<lparr>maxInt32 := scast v\<rparr>))"
  by (simp add: writeParam_def split: sum.splits)

lemma writeParam_rejected:
  "snd (writeParam rd p) \<noteq> None \<Longrightarrow> fst (writeParam rd p) = rd"
  using writeParam_char [of rd p] by (auto split: prod.splits)







lemma inLimits_update:
  "inLimits rd \<Longrightarrow> inLimits (rd\<lparr>minInt8 := scast (a :: int8)\<rparr>)"
  "inLimits rd \<Longrightarrow> inLimits (rd\<lparr>maxInt8 := scast (a :: int8)\<rparr>)"
  "inLimits rd \<Longrightarrow> inLimits (rd\<lparr>minInt16 := scast (b :: int16)\<rparr>)"
  "inLimits rd \<Longrightarrow> inLimits (rd\<lparr>maxInt16 := scast (b :: int16)\<rparr>)"
  "inLimits rd \<Longrightarrow> inLimits (rd\<lparr>minInt32 := scast (c :: int32)\<rparr>)"
  "inLimits rd \<Longrightarrow> inLimits (rd\<lparr>maxInt32 := scast (c :: int32)\<rparr>)"
  using sint_ge [of a] sint_lt [of a] sint_ge [of b] sint_lt [of b] sint_ge [of c] sint_lt [of c]
  by (simp_all add: inLimits_def floor_ceiling_values sint_scast_up)

lemma newRandomDevice_inLimits: "inLimits newRandomDevice"
  by (simp add: inLimits_def newRandomDevice_def floor_ceiling_values sint_scast_up
      defMinInt8_def defMaxInt8_def defMinInt16_def
      defMaxInt16_def defMinInt32_def defMaxInt32_def)

lemma writeParam_inLimits: "inLimits rd \<Longrightarrow> inLimits (fst (writeParam rd p))"
  using writeParam_char [of rd p] by (auto split: prod.splits simp: inLimits_update)

lemma writeLoop_inLimits: "inLimits rd \<Longrightarrow> inLimits (fst (writeLoop rd ps))"
proof (induction ps arbitrary: rd)
  case Nil
  then show ?case by simp
next
  case (Cons p ps)
  obtain rd' e where w: "writeParam rd p = (rd', e)" by (cases "writeParam rd p")
  have "inLimits rd'" using writeParam_inLimits [OF Cons.prems, of p] w by simp
  then show ?case using Cons.IH [of rd'] w by (cases e) simp_all
qed

text \<open>The loop on a batch cut in two: the second part runs only if the first succeeded.\<close>

lemma writeLoop_append:
  "writeLoop rd (ps @ qs) =
     (case writeLoop rd ps of (rd', Some e) \<Rightarrow> (rd', Some e) | (rd', None) \<Rightarrow> writeLoop rd' qs)"
proof (induction ps arbitrary: rd)
  case Nil
  then show ?case by simp
next
  case (Cons p ps)
  obtain rd' e where w: "writeParam rd p = (rd', e)" by (cases "writeParam rd p")
  show ?case using Cons.IH [of rd'] w by (cases e) simp_all
qed

lemma writeLoop_fail_fast:
  assumes "snd (writeLoop rd pre) = None"
    and "snd (writeParam (fst (writeLoop rd pre)) bad) = Some e"
  shows "writeLoop rd (pre @ bad # post) = (fst (writeLoop rd pre), Some e)"
proof -
  obtain rd1 where l: "writeLoop rd pre = (rd1, None)"
    using assms(1) by (cases "writeLoop rd pre") simp
  have "fst (writeParam rd1 bad) = rd1"
    using assms(2) l writeParam_rejected [of rd1 bad] by simp
  then have "writeParam rd1 bad = (rd1, Some e)"
    using assms(2) l by (cases "writeParam rd1 bad") simp
  then show ?thesis using l by (simp add: writeLoop_append)
qed

subsection \<open>The registry\<close>

lemma lookupDevice_fst:
  "fst (lookupDevice s d) = (case randomDevices s d of Some rd \<Rightarrow> rd | None \<Rightarrow> newRandomDevice)"
  by (simp add: lookupDevice_def split: option.splits)

lemma lookupDevice_snd:
  "snd (lookupDevice s d) =
     (case randomDevices s d of Some rd \<Rightarrow> s
      | None \<Rightarrow> s\<lparr>randomDevices := (randomDevices s)(d \<mapsto> newRandomDevice)\<rparr>)"
  by (simp add: lookupDevice_def split: option.splits)

lemma lookupDevice_registry:
  "randomDevices (snd (lookupDevice s d)) = (randomDevices s)(d \<mapsto> fst (lookupDevice s d))"
  by (auto simp: lookupDevice_def split: option.splits)

lemma HandleWriteCommands_eq:
  "HandleWriteCommands s d pr reqs ps =
     (snd (lookupDevice s d)
        \<lparr>randomDevices := (randomDevices s)(d \<mapsto> fst (writeLoop (fst (lookupDevice s d)) ps))\<rparr>,
      snd (writeLoop (fst (lookupDevice s d)) ps))"
proof -
  obtain rd s' where l: "lookupDevice s d = (rd, s')" by (cases "lookupDevice s d")
  obtain rd' e where w: "writeLoop rd ps = (rd', e)" by (cases "writeLoop rd ps")
  have "randomDevices s' = (randomDevices s)(d \<mapsto> rd)"
    using lookupDevice_registry [of s d] l by simp
  then show ?thesis using l w by (simp add: HandleWriteCommands_def)
qed

lemma HandleReadCommands_eq:
  "HandleReadCommands s d pr reqs t rnd =
     (snd (lookupDevice s d),
      readLoop (fst (lookupDevice s d)) (word_of_int (sint t sdiv 1000000)) rnd 0 reqs)"
  by (simp add: HandleReadCommands_def split: prod.splits)

text \<open>Every call keeps every registered device within the absolute limits.\<close>

lemma step_inLimits:
  assumes "\<And>d rd. randomDevices s d = Some rd \<Longrightarrow> inLimits rd"
    and "randomDevices (step s c) d = Some rd"
  shows "inLimits rd"
proof (cases c)
  case (ReadCall d' pr reqs t rnd)
  then show ?thesis
    using assms newRandomDevice_inLimits
    by (auto simp: HandleReadCommands_eq lookupDevice_snd split: option.splits if_splits)
next
  case (WriteCall d' pr reqs ps)
  have "inLimits (fst (lookupDevice s d'))"
    using assms(1) [of d'] newRandomDevice_inLimits
    by (auto simp: lookupDevice_fst split: option.splits)
  then have "inLimits (fst (writeLoop (fst (lookupDevice s d')) ps))"
    by (rule writeLoop_inLimits)
  then show ?thesis
    using assms WriteCall
    by (auto simp: HandleWriteCommands_eq split: if_splits)
next
  case (DisconnectCall d' pr)
  then show ?thesis using assms by (simp add: DisconnectDevice_def)
next
  case (StopCall force)
  then show ?thesis using assms by (simp add: Stop_def)
qed

lemma foldl_step_inLimits:
  assumes "\<And>d rd. randomDevices s d = Some rd \<Longrightarrow> inLimits rd"
    and "randomDevices (foldl step s calls) d = Some rd"
  shows "inLimits rd"
  using assms
proof (induction calls arbitrary: s)
  case Nil
  then show ?case by simp
next
  case (Cons c calls)
  show ?case
  proof (rule Cons.IH [of "step s c"])
    fix d' rd'
    assume "randomDevices (step s c) d' = Some rd'"
    then show "inLimits rd'" using step_inLimits [of s c d' rd'] Cons.prems(1) by blast
  next
    show "randomDevices (foldl step (step s c) calls) d = Some rd"
      using Cons.prems(2) by simp
  qed
qed

lemma run_inLimits: "randomDevices (run s0 l calls) d = Some rd \<Longrightarrow> inLimits rd"
  unfolding run_def
  by (rule foldl_step_inLimits [of "fst (Initialize s0 l)" calls d rd])
    (simp_all add: Initialize_def)

lemma run_lookup_inLimits: "inLimits (fst (lookupDevice (run s0 l calls) d))"
  using run_inLimits [of s0 l calls d] newRandomDevice_inLimits
  by (auto simp: lookupDevice_fst split: option.splits)

section \<open>The claims\<close>

text \<open>Evaluation of the concrete inputs: the definitions to unfold.\<close>

lemmas concrete_defs =
  freshDriver_def zeroDriver_def Initialize_def int8Param_def int16Param_def int32Param_def
  readReq_def run_def lookupDevice_def writeParam_def rd_value_def randomInt_def
  currentMin_def currentMax_def newRandomDevice_def
  defMinInt8_def defMaxInt8_def defMinInt16_def defMaxInt16_def defMinInt32_def defMaxInt32_def

text \<open>
  C1, as amended. In every state the driver reaches from \<^verbatim>\<open>Initialize\<close> by any
  sequence of calls, a read of device \<open>d\<close> succeeds and each returned value \<open>v\<close>
  satisfies \<open>currentMin \<le> v \<le> currentMax\<close> for the requested type, provided each
  requested type is supported and its current minimum does not exceed its current
  maximum. (Writes do not keep the minimum below the maximum; where it is above, no value
  can lie between them.)
\<close>

theorem read_within_current_bounds:
  assumes "\<forall>req\<in>set reqs. supported (reqType req)
      \<and> currentMin (fst (lookupDevice (run s0 l calls) d)) (reqType req)
        \<le> currentMax (fst (lookupDevice (run s0 l calls) d)) (reqType req)"
  shows "readWithin (fst (lookupDevice (run s0 l calls) d)) reqs
           (snd (HandleReadCommands (run s0 l calls) d pr reqs unixNano rnd))"
  using readLoop_within [OF run_lookup_inLimits assms]
  by (simp add: HandleReadCommands_eq)

theorem read_within_current_bounds_witness:
  "supported (reqType (readReq ''r'' ''Int8''))
   \<and> currentMin (fst (lookupDevice (run zeroDriver []
            [WriteCall ''d'' Map.empty [] [int8Param ''Min_Int8'' (- 5), int8Param ''Max_Int8'' 5]]) ''d''))
          ''Int8'' = - 5
   \<and> currentMax (fst (lookupDevice (run zeroDriver []
            [WriteCall ''d'' Map.empty [] [int8Param ''Min_Int8'' (- 5), int8Param ''Max_Int8'' 5]]) ''d''))
          ''Int8'' = 5
   \<and> readWithin (fst (lookupDevice (run zeroDriver []
            [WriteCall ''d'' Map.empty [] [int8Param ''Min_Int8'' (- 5), int8Param ''Max_Int8'' 5]]) ''d''))
        [readReq ''r'' ''Int8'']
        (snd (HandleReadCommands (run zeroDriver []
            [WriteCall ''d'' Map.empty [] [int8Param ''Min_Int8'' (- 5), int8Param ''Max_Int8'' 5]])
          ''d'' Map.empty [readReq ''r'' ''Int8''] 1700000000000000000 (\<lambda>i. 7)))"
proof -
  have h: "\<forall>req\<in>set [readReq ''r'' ''Int8'']. supported (reqType req)
      \<and> currentMin (fst (lookupDevice (run zeroDriver []
            [WriteCall ''d'' Map.empty [] [int8Param ''Min_Int8'' (- 5), int8Param ''Max_Int8'' 5]]) ''d''))
          (reqType req)
        \<le> currentMax (fst (lookupDevice (run zeroDriver []
            [WriteCall ''d'' Map.empty [] [int8Param ''Min_Int8'' (- 5), int8Param ''Max_Int8'' 5]]) ''d''))
          (reqType req)"
    by (simp add: concrete_defs supported_def HandleWriteCommands_eq word_sless_alt)
  have b: "currentMin (fst (lookupDevice (run zeroDriver []
            [WriteCall ''d'' Map.empty [] [int8Param ''Min_Int8'' (- 5), int8Param ''Max_Int8'' 5]]) ''d''))
          ''Int8'' = - 5
      \<and> currentMax (fst (lookupDevice (run zeroDriver []
            [WriteCall ''d'' Map.empty [] [int8Param ''Min_Int8'' (- 5), int8Param ''Max_Int8'' 5]]) ''d''))
          ''Int8'' = 5"
    by (simp add: concrete_defs HandleWriteCommands_eq word_sless_alt)
  show ?thesis
    using b read_within_current_bounds [OF h, of Map.empty 1700000000000000000 "\<lambda>i. 7"]
    by (simp add: supported_def readReq_def)
qed

text \<open>
  C1 as stated fails: after the successful write of \<open>Max_Int8 = 0\<close> and
  \<open>Min_Int8 = 5\<close> the current bounds are 5 and 0, and the read returns 5.
\<close>

theorem read_within_current_bounds_counterexample:
  "snd (HandleWriteCommands freshDriver ''d'' Map.empty []
          [int8Param ''Max_Int8'' 0, int8Param ''Min_Int8'' 5]) = None
   \<and> currentMin (fst (lookupDevice (fst (HandleWriteCommands freshDriver ''d'' Map.empty []
          [int8Param ''Max_Int8'' 0, int8Param ''Min_Int8'' 5])) ''d'')) ''Int8'' = 5
   \<and> currentMax (fst (lookupDevice (fst (HandleWriteCommands freshDriver ''d'' Map.empty []
          [int8Param ''Max_Int8'' 0, int8Param ''Min_Int8'' 5])) ''d'')) ''Int8'' = 0
   \<and> snd (HandleReadCommands (fst (HandleWriteCommands freshDriver ''d'' Map.empty []
          [int8Param ''Max_Int8'' 0, int8Param ''Min_Int8'' 5])) ''d'' Map.empty
        [readReq ''r'' ''Int8''] 0 (\<lambda>i. 0))
      = Inr [Some (NewInt8Value \<lparr>Object = ''r''\<rparr> 0 5)]
   \<and> \<not> readWithin (fst (lookupDevice (fst (HandleWriteCommands freshDriver ''d'' Map.empty []
          [int8Param ''Max_Int8'' 0, int8Param ''Min_Int8'' 5])) ''d'')) [readReq ''r'' ''Int8'']
        (snd (HandleReadCommands (fst (HandleWriteCommands freshDriver ''d'' Map.empty []
          [int8Param ''Max_Int8'' 0, int8Param ''Min_Int8'' 5])) ''d'' Map.empty
        [readReq ''r'' ''Int8''] 0 (\<lambda>i. 0)))"
  by (simp add: concrete_defs HandleWriteCommands_eq HandleReadCommands_eq word_sless_alt
      signed_divide_int_def)


text \<open>
  C2, as amended. At all times, that is in every state the driver reaches from
  \<^verbatim>\<open>Initialize\<close> by any sequence of calls, every bound of every registered device
  lies within the absolute limits of its width; and an update that is rejected has
  changed no bound. (Write compares a value with the absolute limit only, never a minimum
  with the corresponding maximum.)
\<close>

theorem bounds_within_limits_at_all_times:
  "(randomDevices (run s0 l calls) d = Some rd \<longrightarrow> inLimits rd)
   \<and> (snd (writeParam rd' p) \<noteq> None \<longrightarrow> fst (writeParam rd' p) = rd')"
  using run_inLimits [of s0 l calls d rd] writeParam_rejected [of rd' p] by blast

theorem bounds_within_limits_at_all_times_witness:
  "randomDevices (run zeroDriver []
       [WriteCall ''d'' Map.empty [] [int16Param ''Max_Int16'' 10, int16Param ''Min_Int16'' 20]]) ''d''
     = Some (newRandomDevice\<lparr>maxInt16 := 10, minInt16 := 20\<rparr>)
   \<and> inLimits (newRandomDevice\<lparr>maxInt16 := 10, minInt16 := 20\<rparr>)
   \<and> snd (writeParam newRandomDevice (int8Param ''Max_Int16'' 3)) \<noteq> None
   \<and> fst (writeParam newRandomDevice (int8Param ''Max_Int16'' 3)) = newRandomDevice"
proof -
  have h1: "randomDevices (run zeroDriver []
       [WriteCall ''d'' Map.empty [] [int16Param ''Max_Int16'' 10, int16Param ''Min_Int16'' 20]]) ''d''
     = Some (newRandomDevice\<lparr>maxInt16 := 10, minInt16 := 20\<rparr>)"
    by (simp add: concrete_defs HandleWriteCommands_eq word_sless_alt)
  have h2: "snd (writeParam newRandomDevice (int8Param ''Max_Int16'' 3)) \<noteq> None"
    by (simp add: writeParam_def int8Param_def)
  show ?thesis
    using h1 h2
      bounds_within_limits_at_all_times [of zeroDriver "[]"
        "[WriteCall ''d'' Map.empty [] [int16Param ''Max_Int16'' 10, int16Param ''Min_Int16'' 20]]"
        "''d''" "newRandomDevice\<lparr>maxInt16 := 10, minInt16 := 20\<rparr>"
        newRandomDevice "int8Param ''Max_Int16'' 3"]
    by blast
qed

text \<open>
  C2 as stated fails: the write of \<open>Max_Int16 = 10\<close> and then \<open>Min_Int16 = 20\<close>
  succeeds and leaves the minimum above the maximum.
\<close>

theorem min_le_max_counterexample:
  "HandleWriteCommands freshDriver ''d'' Map.empty []
       [int16Param ''Max_Int16'' 10, int16Param ''Min_Int16'' 20]
     = (\<lparr>lc = [], randomDevices = [''d'' \<mapsto> newRandomDevice\<lparr>maxInt16 := 10, minInt16 := 20\<rparr>]\<rparr>,
        None)
   \<and> \<not> sint (minInt16 (newRandomDevice\<lparr>maxInt16 := 10, minInt16 := 20\<rparr>))
        \<le> sint (maxInt16 (newRandomDevice\<lparr>maxInt16 := 10, minInt16 := 20\<rparr>))"
  by (simp add: concrete_defs HandleWriteCommands_eq word_sless_alt)



text \<open>A read with a request of an unsupported type fails at the first such request.\<close>

lemma rd_value_supported:
  "supported t \<Longrightarrow> \<exists>v. rd_value rd t r = Inr v"
  by (auto simp: rd_value_def supported_def)

lemma rd_value_unsupported:
  "\<not> supported t \<Longrightarrow> rd_value rd t r = Inl (UnsupportedType t)"
  by (simp add: rd_value_def supported_def)

lemma readLoop_unsupported:
  assumes "\<exists>req\<in>set reqs. \<not> supported (reqType req)"
  shows "\<exists>t. \<not> supported t \<and> readLoop rd now rnd i reqs = Inl (UnsupportedType t)"
  using assms
proof (induction reqs arbitrary: i)
  case Nil
  then show ?case by simp
next
  case (Cons req reqs)
  show ?case
  proof (cases "supported (reqType req)")
    case False
    then show ?thesis
      by (intro exI [of _ "reqType req"]) (simp add: rd_value_unsupported)
  next
    case True
    then obtain v where v: "rd_value rd (reqType req) (rnd i) = Inr v"
      using rd_value_supported by blast
    from True Cons.prems have "\<exists>req\<in>set reqs. \<not> supported (reqType req)" by auto
    then obtain t where "\<not> supported t"
      and "readLoop rd now rnd (Suc i) reqs = Inl (UnsupportedType t)"
      using Cons.IH [of "Suc i"] by blast
    then show ?thesis using v by (intro exI [of _ t]) simp
  qed
qed

text \<open>
  C4, as amended. A read with a request whose type is not one of the three supported
  types fails with \<open>UnsupportedType\<close> and changes no bound of any registered device:
  the driver is as before the call when the device is registered, and otherwise differs
  only by the new registry entry for the device, with the default bounds (the driver
  creates the device before it looks at the requests).
\<close>

theorem read_unsupported_type:
  assumes "\<exists>req\<in>set reqs. \<not> supported (reqType req)"
  shows "(\<exists>t. \<not> supported t
            \<and> snd (HandleReadCommands s d pr reqs unixNano rnd) = Inl (UnsupportedType t))
       \<and> fst (HandleReadCommands s d pr reqs unixNano rnd)
           = (case randomDevices s d of
                Some rd \<Rightarrow> s
              | None \<Rightarrow> s\<lparr>randomDevices := (randomDevices s)(d \<mapsto> newRandomDevice)\<rparr>)"
  using readLoop_unsupported [OF assms]
  by (simp add: HandleReadCommands_eq lookupDevice_snd)

theorem read_unsupported_type_witness:
  "\<not> supported (reqType (readReq ''r'' ''Float64''))
   \<and> snd (HandleReadCommands
            \<lparr>lc = [], randomDevices = [''d'' \<mapsto> newRandomDevice\<lparr>minInt8 := 1\<rparr>]\<rparr>
            ''d'' Map.empty [readReq ''q'' ''Int8'', readReq ''r'' ''Float64''] 0 (\<lambda>i. i))
       = Inl (UnsupportedType ''Float64'')
   \<and> fst (HandleReadCommands
            \<lparr>lc = [], randomDevices = [''d'' \<mapsto> newRandomDevice\<lparr>minInt8 := 1\<rparr>]\<rparr>
            ''d'' Map.empty [readReq ''q'' ''Int8'', readReq ''r'' ''Float64''] 0 (\<lambda>i. i))
       = \<lparr>lc = [], randomDevices = [''d'' \<mapsto> newRandomDevice\<lparr>minInt8 := 1\<rparr>]\<rparr>"
proof -
  have h: "\<exists>req\<in>set [readReq ''q'' ''Int8'', readReq ''r'' ''Float64'']. \<not> supported (reqType req)"
    by (simp add: readReq_def supported_def)
  have e: "snd (HandleReadCommands
            \<lparr>lc = [], randomDevices = [''d'' \<mapsto> newRandomDevice\<lparr>minInt8 := 1\<rparr>]\<rparr>
            ''d'' Map.empty [readReq ''q'' ''Int8'', readReq ''r'' ''Float64''] 0 (\<lambda>i. i))
       = Inl (UnsupportedType ''Float64'')"
    by (simp add: HandleReadCommands_eq readReq_def rd_value_def)
  show ?thesis
    using e read_unsupported_type [OF h, of
        "\<lparr>lc = [], randomDevices = [''d'' \<mapsto> newRandomDevice\<lparr>minInt8 := 1\<rparr>]\<rparr>"
        "''d''" Map.empty 0 "\<lambda>i. i"]
    by (simp add: readReq_def supported_def)
qed

text \<open>
  C4 as stated fails: on a device that is not registered, the failed read has added the
  device to the registry.
\<close>

theorem read_unsupported_type_counterexample:
  "randomDevices freshDriver ''d'' = None
   \<and> snd (HandleReadCommands freshDriver ''d'' Map.empty [readReq ''r'' ''Float64''] 0 (\<lambda>i. 0))
       = Inl (UnsupportedType ''Float64'')
   \<and> randomDevices
       (fst (HandleReadCommands freshDriver ''d'' Map.empty [readReq ''r'' ''Float64''] 0 (\<lambda>i. 0)))
       ''d'' = Some newRandomDevice
   \<and> fst (HandleReadCommands freshDriver ''d'' Map.empty [readReq ''r'' ''Float64''] 0 (\<lambda>i. 0))
       \<noteq> freshDriver"
proof -
  have r: "randomDevices
       (fst (HandleReadCommands freshDriver ''d'' Map.empty [readReq ''r'' ''Float64''] 0 (\<lambda>i. 0)))
       ''d'' = Some newRandomDevice"
    by (simp add: HandleReadCommands_eq lookupDevice_snd freshDriver_def zeroDriver_def
        Initialize_def)
  have n: "randomDevices freshDriver ''d'' = None"
    by (simp add: freshDriver_def zeroDriver_def Initialize_def)
  have "fst (HandleReadCommands freshDriver ''d'' Map.empty [readReq ''r'' ''Float64''] 0 (\<lambda>i. 0))
       \<noteq> freshDriver"
    using r n by auto
  moreover have "snd (HandleReadCommands freshDriver ''d'' Map.empty [readReq ''r'' ''Float64''] 0 (\<lambda>i. 0))
       = Inl (UnsupportedType ''Float64'')"
    by (simp add: HandleReadCommands_eq readReq_def rd_value_def)
  ultimately show ?thesis using r n by simp
qed









lemma newRandomDevice_bounds:
  "supported t \<Longrightarrow> currentMin newRandomDevice t = floorOf t"
  "supported t \<Longrightarrow> currentMax newRandomDevice t = ceilingOf t"
  by (auto simp: supported_def currentMin_def currentMax_def floorOf_def ceilingOf_def
      newRandomDevice_def sint_scast_up)

lemma floor_le_ceiling: "supported t \<Longrightarrow> floorOf t \<le> ceilingOf t"
  by (auto simp: supported_def floor_ceiling_values)

text \<open>
  C7 (against the device constructor and the sampling as the spec describes them). A read
  of a device that is not registered succeeds when every requested type is supported: the
  device is entered in the registry with the default bounds, which are the full range of
  each width ([-128,127], [-32768,32767], [-2147483648,2147483647]), and every returned
  value lies within the default range of its type.
\<close>

theorem read_unseen_device:
  assumes "randomDevices s d = None"
    and "\<forall>req\<in>set reqs. supported (reqType req)"
  shows "readWithin newRandomDevice reqs (snd (HandleReadCommands s d pr reqs unixNano rnd))
       \<and> fst (HandleReadCommands s d pr reqs unixNano rnd)
           = s\<lparr>randomDevices := (randomDevices s)(d \<mapsto> newRandomDevice)\<rparr>
       \<and> currentMin newRandomDevice ''Int8'' = - 128
       \<and> currentMax newRandomDevice ''Int8'' = 127
       \<and> currentMin newRandomDevice ''Int16'' = - 32768
       \<and> currentMax newRandomDevice ''Int16'' = 32767
       \<and> currentMin newRandomDevice ''Int32'' = - 2147483648
       \<and> currentMax newRandomDevice ''Int32'' = 2147483647"
proof -
  have rd: "fst (lookupDevice s d) = newRandomDevice"
    using assms(1) by (simp add: lookupDevice_fst)
  have "\<forall>req\<in>set reqs. supported (reqType req)
      \<and> currentMin newRandomDevice (reqType req) \<le> currentMax newRandomDevice (reqType req)"
    using assms(2) by (simp add: newRandomDevice_bounds floor_le_ceiling)
  then have "readWithin newRandomDevice reqs
      (readLoop newRandomDevice (word_of_int (sint unixNano sdiv 1000000)) rnd 0 reqs)"
    by (rule readLoop_within [OF newRandomDevice_inLimits])
  then have "readWithin newRandomDevice reqs (snd (HandleReadCommands s d pr reqs unixNano rnd))"
    by (simp add: HandleReadCommands_eq rd)
  moreover have "fst (HandleReadCommands s d pr reqs unixNano rnd)
      = s\<lparr>randomDevices := (randomDevices s)(d \<mapsto> newRandomDevice)\<rparr>"
    using assms(1) by (simp add: HandleReadCommands_eq lookupDevice_snd)
  moreover have "currentMin newRandomDevice ''Int8'' = - 128"
    "currentMax newRandomDevice ''Int8'' = 127"
    "currentMin newRandomDevice ''Int16'' = - 32768"
    "currentMax newRandomDevice ''Int16'' = 32767"
    "currentMin newRandomDevice ''Int32'' = - 2147483648"
    "currentMax newRandomDevice ''Int32'' = 2147483647"
    by (simp_all add: newRandomDevice_bounds supported_def floor_ceiling_values)
  ultimately show ?thesis by blast
qed

theorem read_unseen_device_witness:
  "randomDevices freshDriver ''d'' = None
   \<and> supported (reqType (readReq ''a'' ''Int8''))
   \<and> supported (reqType (readReq ''b'' ''Int16''))
   \<and> supported (reqType (readReq ''c'' ''Int32''))
   \<and> snd (HandleReadCommands freshDriver ''d'' Map.empty
            [readReq ''a'' ''Int8'', readReq ''b'' ''Int16'', readReq ''c'' ''Int32'']
            1700000000000000000 (\<lambda>i. 1000 * i + 300))
       = Inr [Some (NewInt8Value \<lparr>Object = ''a''\<rparr> 1700000000000 (- 84)),
              Some (NewInt16Value \<lparr>Object = ''b''\<rparr> 1700000000000 (- 31468)),
              Some (NewInt32Value \<lparr>Object = ''c''\<rparr> 1700000000000 (- 2147481348))]
   \<and> readWithin newRandomDevice
        [readReq ''a'' ''Int8'', readReq ''b'' ''Int16'', readReq ''c'' ''Int32'']
        (snd (HandleReadCommands freshDriver ''d'' Map.empty
            [readReq ''a'' ''Int8'', readReq ''b'' ''Int16'', readReq ''c'' ''Int32'']
            1700000000000000000 (\<lambda>i. 1000 * i + 300)))
   \<and> randomDevices (fst (HandleReadCommands freshDriver ''d'' Map.empty
            [readReq ''a'' ''Int8'', readReq ''b'' ''Int16'', readReq ''c'' ''Int32'']
            1700000000000000000 (\<lambda>i. 1000 * i + 300))) ''d'' = Some newRandomDevice"
proof -
  have h1: "randomDevices freshDriver ''d'' = None"
    by (simp add: freshDriver_def zeroDriver_def Initialize_def)
  have h2: "\<forall>req\<in>set [readReq ''a'' ''Int8'', readReq ''b'' ''Int16'', readReq ''c'' ''Int32''].
      supported (reqType req)"
    by (simp add: readReq_def supported_def)
  have v: "snd (HandleReadCommands freshDriver ''d'' Map.empty
            [readReq ''a'' ''Int8'', readReq ''b'' ''Int16'', readReq ''c'' ''Int32'']
            1700000000000000000 (\<lambda>i. 1000 * i + 300))
       = Inr [Some (NewInt8Value \<lparr>Object = ''a''\<rparr> 1700000000000 (- 84)),
              Some (NewInt16Value \<lparr>Object = ''b''\<rparr> 1700000000000 (- 31468)),
              Some (NewInt32Value \<lparr>Object = ''c''\<rparr> 1700000000000 (- 2147481348))]"
    by (simp add: concrete_defs HandleReadCommands_eq signed_divide_int_def)
  show ?thesis
    using h1 h2 v
      read_unseen_device [OF h1 h2, of Map.empty 1700000000000000000 "\<lambda>i. 1000 * i + 300"]
    by simp
qed



text \<open>
  C9. The lifecycle callbacks succeed on every input: \<^verbatim>\<open>Stop\<close> returns no error for
  either value of \<open>force\<close> and leaves the registry as it is (it writes one debug line),
  and \<^verbatim>\<open>DisconnectDevice\<close> returns no error for every device name and every protocol
  map, and leaves the driver as it is.
\<close>

theorem lifecycle_always_succeeds:
  "snd (Stop s True) = None \<and> snd (Stop s False) = None
   \<and> randomDevices (fst (Stop s force)) = randomDevices s
   \<and> DisconnectDevice s deviceName protocols = (s, None)"
  by (simp add: Stop_def DisconnectDevice_def)

text \<open>
  C10. For a device that is not registered, both callbacks enter the device in the
  registry before they look at the request: after a read the entry is the default device,
  whatever the read returns, and after a write it is the default device as the batch left
  it. So a read that fails on an unsupported type and a write whose first update is
  rejected both leave the default device in the registry.
\<close>

theorem lazy_creation_survives_errors:
  assumes "randomDevices s d = None"
  shows "randomDevices (fst (HandleReadCommands s d pr reqs unixNano rnd)) d = Some newRandomDevice
       \<and> randomDevices (fst (HandleWriteCommands s d pr wreqs ps)) d
           = Some (fst (writeLoop newRandomDevice ps))
       \<and> (\<not> supported (reqType req) \<longrightarrow>
            snd (HandleReadCommands s d pr (req # reqs) unixNano rnd)
              = Inl (UnsupportedType (reqType req))
            \<and> randomDevices (fst (HandleReadCommands s d pr (req # reqs) unixNano rnd)) d
              = Some newRandomDevice)
       \<and> (snd (writeParam newRandomDevice p) \<noteq> None \<longrightarrow>
            snd (HandleWriteCommands s d pr wreqs (p # ps)) = snd (writeParam newRandomDevice p)
            \<and> randomDevices (fst (HandleWriteCommands s d pr wreqs (p # ps))) d
              = Some newRandomDevice)"
proof -
  have rd: "fst (lookupDevice s d) = newRandomDevice"
    using assms by (simp add: lookupDevice_fst)
  have r: "randomDevices (fst (HandleReadCommands s d pr rs unixNano rnd)) d = Some newRandomDevice"
    for rs
    using assms by (simp add: HandleReadCommands_eq lookupDevice_snd)
  have w: "randomDevices (fst (HandleWriteCommands s d pr wreqs ps)) d
      = Some (fst (writeLoop newRandomDevice ps))"
    by (simp add: HandleWriteCommands_eq rd)
  have u: "snd (HandleReadCommands s d pr (req # reqs) unixNano rnd)
      = Inl (UnsupportedType (reqType req))" if "\<not> supported (reqType req)"
    using that by (simp add: HandleReadCommands_eq rd_value_unsupported)
  have f: "writeLoop newRandomDevice (p # ps) = (newRandomDevice, snd (writeParam newRandomDevice p))"
    if ne: "snd (writeParam newRandomDevice p) \<noteq> None"
  proof -
    obtain e where e: "snd (writeParam newRandomDevice p) = Some e" using ne by auto
    show ?thesis
      using writeLoop_fail_fast [of newRandomDevice "[]" p e ps] e by simp
  qed
  have "snd (HandleWriteCommands s d pr wreqs (p # ps)) = snd (writeParam newRandomDevice p)
      \<and> randomDevices (fst (HandleWriteCommands s d pr wreqs (p # ps))) d = Some newRandomDevice"
    if "snd (writeParam newRandomDevice p) \<noteq> None"
    using f [OF that] by (simp add: HandleWriteCommands_eq rd)
  then show ?thesis using r w u by blast
qed

theorem lazy_creation_survives_errors_witness:
  "randomDevices freshDriver ''d'' = None
   \<and> \<not> supported (reqType (readReq ''r'' ''String''))
   \<and> snd (HandleReadCommands freshDriver ''d'' Map.empty [readReq ''r'' ''String''] 0 (\<lambda>i. i))
       = Inl (UnsupportedType ''String'')
   \<and> randomDevices (fst (HandleReadCommands freshDriver ''d'' Map.empty [readReq ''r'' ''String'']
        0 (\<lambda>i. i))) ''d'' = Some newRandomDevice
   \<and> snd (writeParam newRandomDevice (int8Param ''Mean_Int8'' 4)) = Some (UnknownField ''Mean_Int8'')
   \<and> snd (HandleWriteCommands freshDriver ''d'' Map.empty []
        [int8Param ''Mean_Int8'' 4, int8Param ''Min_Int8'' 1]) = Some (UnknownField ''Mean_Int8'')
   \<and> randomDevices (fst (HandleWriteCommands freshDriver ''d'' Map.empty []
        [int8Param ''Mean_Int8'' 4, int8Param ''Min_Int8'' 1])) ''d'' = Some newRandomDevice"
proof -
  have h: "randomDevices freshDriver ''d'' = None"
    by (simp add: freshDriver_def zeroDriver_def Initialize_def)
  have a: "\<not> supported (reqType (readReq ''r'' ''String''))"
    by (simp add: readReq_def supported_def)
  have b: "snd (writeParam newRandomDevice (int8Param ''Mean_Int8'' 4)) = Some (UnknownField ''Mean_Int8'')"
    by (simp add: writeParam_def int8Param_def)
  show ?thesis
    using h a b
      lazy_creation_survives_errors [OF h, of Map.empty "[]" 0 "\<lambda>i. i" "[]"
        "[int8Param ''Min_Int8'' 1]" "readReq ''r'' ''String''" "int8Param ''Mean_Int8'' 4"]
    by (simp add: readReq_def)
qed

end
